theory Spec2Isabelle
  imports Main
begin

section \<open>Text\<close>

text \<open>
  The plugin runs on Python 2 with \<open>unicode_literals\<close>: titles, authors, URLs and page
  text are \<open>unicode\<close> objects, sequences of code points. A code point is a natural number,
  so the Hangul syllables of the date pattern can be written down; byte strings (the
  output of a codec, a response body) are lists of numbers below 256. \<open>U\<close> turns an
  ASCII literal of the source into its code points.
\<close>

type_synonym ustr = "nat list"

abbreviation U :: "string \<Rightarrow> ustr" where
  "U s \<equiv> map (of_char :: char \<Rightarrow> nat) s"

text \<open>Python's \<open>s.split(sep)\<close> for a separator of one character: one more part than
  there are separators, empty parts kept.\<close>

fun split_on :: "'a \<Rightarrow> 'a list \<Rightarrow> 'a list list" where
  "split_on c [] = [[]]"
| "split_on c (x # xs) =
     (if x = c then [] # split_on c xs
      else (x # hd (split_on c xs)) # tl (split_on c xs))"

text \<open>\<open>s.rsplit(sep, 1)\<close>: split once, at the last separator.\<close>

definition rsplit1 :: "'a \<Rightarrow> 'a list \<Rightarrow> 'a list list" where
  "rsplit1 c s =
     (if c \<in> set s
      then [rev (tl (dropWhile (\<lambda>x. x \<noteq> c) (rev s))), rev (takeWhile (\<lambda>x. x \<noteq> c) (rev s))]
      else [s])"

text \<open>\<open>sep.join(parts)\<close>.\<close>

fun join :: "'a list \<Rightarrow> 'a list list \<Rightarrow> 'a list" where
  "join sep [] = []"
| "join sep [p] = p"
| "join sep (p # q # ps) = p @ sep @ join sep (q # ps)"

definition startswith :: "'a list \<Rightarrow> 'a list \<Rightarrow> bool" where
  "startswith s p = (take (length p) s = p)"

definition endswith :: "'a list \<Rightarrow> 'a list \<Rightarrow> bool" where
  "endswith s p = (length p \<le> length s \<and> drop (length s - length p) s = p)"

text \<open>\<open>sub in s\<close>.\<close>

fun contains :: "'a list \<Rightarrow> 'a list \<Rightarrow> bool" where
  "contains sub [] = (sub = [])"
| "contains sub (c # cs) = (startswith (c # cs) sub \<or> contains sub cs)"

text \<open>\<open>s.replace(old, new)\<close> replaces every occurrence of \<open>old\<close>, scanning from the left
  and continuing after each replaced occurrence. For an empty \<open>old\<close> Python puts \<open>new\<close>
  before every character and at the end.\<close>

function replace :: "'a list \<Rightarrow> 'a list \<Rightarrow> 'a list \<Rightarrow> 'a list" where
  "replace old new s =
     (if old = [] then new @ concat (map (\<lambda>c. c # new) s)
      else if s = [] then []
      else if startswith s old then new @ replace old new (drop (length old) s)
      else hd s # replace old new (tl s))"
  by pat_completeness auto
termination
  by (relation "measure (\<lambda>(old, new, s). length s)") auto

declare replace.simps [simp del]

text \<open>\<open>unicode.isspace\<close> (Python 2.7) and \<open>unicode.strip()\<close>; \<open>str.strip()\<close> of a byte
  string strips the six ASCII white space characters only.\<close>

definition isspace :: "nat \<Rightarrow> bool" where
  "isspace c =
     ((9 \<le> c \<and> c \<le> 13) \<or> (28 \<le> c \<and> c \<le> 32) \<or> c = 133 \<or> c = 160 \<or> c = 5760 \<or> c = 6158
      \<or> (8192 \<le> c \<and> c \<le> 8202) \<or> c = 8232 \<or> c = 8233 \<or> c = 8239 \<or> c = 8287 \<or> c = 12288)"

definition strip :: "ustr \<Rightarrow> ustr" where
  "strip s = rev (dropWhile isspace (rev (dropWhile isspace s)))"

definition isspace_byte :: "nat \<Rightarrow> bool" where
  "isspace_byte c = ((9 \<le> c \<and> c \<le> 13) \<or> c = 32)"

definition strip_bytes :: "ustr \<Rightarrow> ustr" where
  "strip_bytes s = rev (dropWhile isspace_byte (rev (dropWhile isspace_byte s)))"

definition isdigit :: "nat \<Rightarrow> bool" where
  "isdigit c = (48 \<le> c \<and> c \<le> 57)"

section \<open>Exceptions\<close>

text \<open>
  The exceptions the code meets. \<open>HTTPError code\<close> is the only one with a \<open>getcode\<close>
  method; \<open>URLError_timeout\<close> is an error whose first argument is a \<open>socket.timeout\<close>;
  \<open>OtherError\<close> is any other \<open>Exception\<close> a library raises.
\<close>

datatype exn =
    AttributeError
  | IndexError
  | ValueError
  | UnicodeEncodeError
  | HTTPError nat
  | URLError_timeout
  | OtherError ustr

section \<open>Pages, records and the libraries around the plugin\<close>

text \<open>
  An element of a parsed page, as far as the code reads it: its \<open>.text\<close> (\<open>None\<close> when
  the element starts with a child), its \<open>text_content()\<close> and its serialisation by
  \<open>tostring(node, method='html')\<close>.
\<close>

record elem =
  el_text :: "ustr option"
  el_text_content :: ustr
  el_html :: ustr

text \<open>
  A parsed page is what the fixed XPath queries of the code return on it. A query
  returns a list of nodes or raises. \<open>xp_goods_infogrp\<close> holds, for every
  \<open>//td[@class="goods_infogrp"]\<close> of a result listing in document order, what
  \<open>.//p[contains(@class, "goods_name")]/a/@href\<close> returns on that element.
\<close>

record root =
  xp_goods_infogrp :: "exn + (exn + ustr list) list"
  xp_h1_a :: "exn + elem list"
  xp_og_title :: "exn + ustr list"
  xp_series_a :: "exn + elem list"
  xp_title_p :: "exn + elem list"
  xp_isbn10_p :: "exn + elem list"
  xp_pdDate_p :: "exn + elem list"
  xp_description_p :: "exn + elem list"
  xp_og_image :: "exn + ustr list"

text \<open>Python floats stay abstract: \<open>float()\<close> is one of the libraries below.\<close>

typedecl pyfloat

text \<open>The library manager's \<open>Metadata\<close> object: the fields the worker sets.\<close>

record metadata =
  mi_title :: ustr
  mi_authors :: "ustr list"
  mi_series :: "ustr option"
  mi_series_index :: "pyfloat option"
  mi_yes24 :: "ustr option"
  mi_isbn :: "ustr option"
  mi_comments :: "ustr option"
  mi_has_cover :: bool
  mi_cover_url :: "ustr option"
  mi_publisher :: "ustr option"
  mi_pubdate :: "(nat \<times> nat \<times> nat) option"
  mi_language :: "ustr option"
  mi_source_relevance :: "int option"

text \<open>
  The functions the plugin calls and the repository does not hold: the host's ISBN
  check and metadata cleaning, the \<open>euc-kr\<close> codec, \<open>urllib.quote\<close>, the HTML parser
  (\<open>fromstring (clean_ascii_chars raw)\<close>) and \<open>float\<close>. Every definition below takes them
  as a parameter.
\<close>

record externals =
  check_isbn :: "ustr option \<Rightarrow> ustr option"
  encode_euckr :: "ustr \<Rightarrow> exn + ustr"
  decode_euckr :: "ustr \<Rightarrow> ustr"
  quote :: "ustr \<Rightarrow> ustr"
  fromstring :: "ustr \<Rightarrow> exn + root"
  float_of :: "ustr \<Rightarrow> exn + pyfloat"
  clean_downloaded_metadata :: "metadata \<Rightarrow> metadata"

section \<open>The plugin: building the query\<close>

definition BASE_URL :: ustr where
  "BASE_URL = U ''http://www.yes24.com''"

definition BROWSE_URL :: ustr where
  "BROWSE_URL = U ''http://www.yes24.com/24/Goods''"

definition SEARCH_URL :: ustr where
  "SEARCH_URL = U ''http://www.yes24.com/searchcorner/Search?domain=BOOK''"

text \<open>
  \<open>[quote(t.encode('euc-kr') if isinstance(t, unicode) else t) for t in tokens]\<close>. The
  tokens of a \<open>unicode\<close> title are \<open>unicode\<close>, so every token is encoded; the first
  token the codec cannot encode raises \<open>UnicodeEncodeError\<close>.
\<close>

fun quote_tokens :: "externals \<Rightarrow> ustr list \<Rightarrow> exn + ustr list" where
  "quote_tokens ext [] = Inr []"
| "quote_tokens ext (t # ts) =
     (case encode_euckr ext t of
        Inl e \<Rightarrow> Inl e
      | Inr b \<Rightarrow>
          (case quote_tokens ext ts of
             Inl e \<Rightarrow> Inl e
           | Inr qs \<Rightarrow> Inr (quote ext b # qs)))"

text \<open>
  \<open>YES24._create_query\<close>. \<open>title\<close> and \<open>authors\<close> are \<open>None\<close> or a value; an empty
  title and an empty list of authors are false. The result is the query, \<open>None\<close>, or the
  exception that leaves the method.
\<close>

definition create_query ::
  "externals \<Rightarrow> ustr option \<Rightarrow> ustr list option \<Rightarrow> (ustr \<rightharpoonup> ustr) \<Rightarrow> exn + ustr option" where
  "create_query ext title authors identifiers =
     (case check_isbn ext (identifiers (U ''isbn'')) of
        Some isbn \<Rightarrow> Inr (Some (SEARCH_URL @ U ''&query='' @ isbn))
      | None \<Rightarrow>
          (case (if title \<noteq> None \<and> title \<noteq> Some []
                 then quote_tokens ext (split_on 32 (the title)) else Inr []) of
             Inl e \<Rightarrow> Inl e
           | Inr title_tokens \<Rightarrow>
               (case (if authors \<noteq> None \<and> authors \<noteq> Some []
                      then quote_tokens ext (split_on 32 (hd (the authors))) else Inr []) of
                  Inl e \<Rightarrow> Inl e
                | Inr author_tokens \<Rightarrow>
                    (let tokens = title_tokens @ author_tokens
                     in if length tokens = 0 then Inr None
                        else Inr (Some (SEARCH_URL @ U ''&query='' @ join (U ''+'') tokens))))))"

section \<open>The plugin: reading the result listing\<close>

text \<open>
  The loop of \<open>YES24._parse_search_results\<close>: \<open>result.xpath(...)[0]\<close> raises
  \<open>IndexError\<close> on an element with no such \<open>href\<close>. \<open>matches\<close> is a list the caller
  owns and the method appends to; the model returns it with the exception, if any,
  that leaves the method.
\<close>

fun append_result_urls :: "(exn + ustr list) list \<Rightarrow> ustr list \<Rightarrow> ustr list \<times> exn option" where
  "append_result_urls [] matches = (matches, None)"
| "append_result_urls (result # results) matches =
     (case result of
        Inl e \<Rightarrow> (matches, Some e)
      | Inr [] \<Rightarrow> (matches, Some IndexError)
      | Inr (result_url # _) \<Rightarrow> append_result_urls results (matches @ [BASE_URL @ result_url]))"

definition parse_search_results :: "root \<Rightarrow> ustr list \<Rightarrow> ustr list \<times> exn option" where
  "parse_search_results rt matches =
     (case xp_goods_infogrp rt of
        Inl e \<Rightarrow> (matches, Some e)
      | Inr results \<Rightarrow>
          (if results = [] then (matches, None) else append_result_urls results matches))"

section \<open>Shared state: caches, result queue, log\<close>

datatype level = Info | Error | Exception

text \<open>A value formatted into a log message.\<close>

datatype pyval = PNone | PStr ustr | PList "ustr list"

type_synonym log_entry = "level \<times> string \<times> pyval list"

text \<open>
  What the workers of one lookup share: the two caches of the plugin object, the result
  queue and the log.
\<close>

record shared =
  isbn_to_identifier_cache :: "ustr \<rightharpoonup> ustr"
  identifier_to_cover_url_cache :: "ustr \<rightharpoonup> ustr"
  result_queue :: "metadata list"
  log_lines :: "log_entry list"

definition log_to :: "level \<Rightarrow> string \<Rightarrow> pyval list \<Rightarrow> shared \<Rightarrow> shared" where
  "log_to lv msg args sh = sh\<lparr>log_lines := log_lines sh @ [(lv, msg, args)]\<rparr>"

text \<open>
  Modelled from the spec: the cache methods of the host's plugin base class
  (\<open>cache_isbn_to_identifier\<close>, \<open>cached_isbn_to_identifier\<close>,
  \<open>cache_identifier_to_cover_url\<close>) are not in the repository. The spec calls the
  cache a small in-memory id\<rightarrow>URL cache that is only added to; \<open>get_cached_cover_url\<close>
  reads \<open>_identifier_to_cover_url_cache\<close> with \<open>dict.get\<close>, so the caches are dictionaries
  and a store is a dictionary assignment.
\<close>

definition cache_isbn_to_identifier :: "ustr \<Rightarrow> ustr \<Rightarrow> shared \<Rightarrow> shared" where
  "cache_isbn_to_identifier isbn identifier sh =
     sh\<lparr>isbn_to_identifier_cache := (isbn_to_identifier_cache sh)(isbn \<mapsto> identifier)\<rparr>"

definition cached_isbn_to_identifier :: "shared \<Rightarrow> ustr \<Rightarrow> ustr option" where
  "cached_isbn_to_identifier sh isbn = isbn_to_identifier_cache sh isbn"

definition cache_identifier_to_cover_url :: "ustr \<Rightarrow> ustr \<Rightarrow> shared \<Rightarrow> shared" where
  "cache_identifier_to_cover_url ident url sh =
     sh\<lparr>identifier_to_cover_url_cache := (identifier_to_cover_url_cache sh)(ident \<mapsto> url)\<rparr>"

text \<open>Python's truth value of \<open>None\<close> or a string, and of \<open>None\<close> or a list.\<close>

definition truthy :: "'a list option \<Rightarrow> bool" where
  "truthy v = (v \<noteq> None \<and> v \<noteq> Some [])"

text \<open>\<open>YES24.get_cached_cover_url\<close>.\<close>

definition get_cached_cover_url :: "shared \<Rightarrow> (ustr \<rightharpoonup> ustr) \<Rightarrow> ustr option" where
  "get_cached_cover_url sh identifiers =
     (let yes24_id = identifiers (U ''yes24'');
          yes24_id =
            (if yes24_id = None
             then (case identifiers (U ''isbn'') of
                     None \<Rightarrow> None
                   | Some isbn \<Rightarrow> cached_isbn_to_identifier sh isbn)
             else yes24_id)
      in if truthy yes24_id then identifier_to_cover_url_cache sh (the yes24_id) else None)"

section \<open>The worker\<close>

text \<open>
  The fields of a \<open>Worker\<close> that change or differ between workers. Every worker has a
  browser of its own (\<open>browser.clone_browser()\<close>); \<open>w_requests\<close> is the list of URLs that
  browser was asked to open.
\<close>

record worker =
  w_url :: ustr
  w_relevance :: int
  w_cover_url :: "ustr option"
  w_yes24_id :: "ustr option"
  w_isbn :: "ustr option"
  w_requests :: "ustr list"

text \<open>\<open>Worker.__init__\<close>.\<close>

definition Worker :: "ustr \<Rightarrow> int \<Rightarrow> worker" where
  "Worker url relevance =
     \<lparr>w_url = url, w_relevance = relevance, w_cover_url = None, w_yes24_id = None,
      w_isbn = None, w_requests = []\<rparr>"

text \<open>
  \<open>re.search('yes24.com/24/[Gg]oods/(\d+)', url)\<close>: the pattern at the start of \<open>s\<close>
  (its dot matches any character but a newline), then the leftmost position where it
  matches. The group is the longest run of digits.
\<close>

definition match_yes24_at :: "ustr \<Rightarrow> ustr option" where
  "match_yes24_at s =
     (let a = drop 5 s; b = drop 1 a; c = drop 7 b; d = drop 1 c; e = drop 5 d
      in if take 5 s = U ''yes24'' \<and> a \<noteq> [] \<and> hd a \<noteq> 10 \<and> take 7 b = U ''com/24/''
            \<and> c \<noteq> [] \<and> (hd c = 71 \<or> hd c = 103) \<and> take 5 d = U ''oods/''
            \<and> takeWhile isdigit e \<noteq> []
         then Some (takeWhile isdigit e) else None)"

fun re_search_yes24 :: "ustr \<Rightarrow> ustr option" where
  "re_search_yes24 [] = None"
| "re_search_yes24 (c # cs) =
     (case match_yes24_at (c # cs) of
        Some g \<Rightarrow> Some g
      | None \<Rightarrow> re_search_yes24 cs)"

text \<open>\<open>Worker.parse_yes24_id\<close>: \<open>.groups\<close> of \<open>None\<close> raises.\<close>

definition parse_yes24_id :: "ustr \<Rightarrow> exn + ustr" where
  "parse_yes24_id url =
     (case re_search_yes24 url of
        None \<Rightarrow> Inl AttributeError
      | Some g \<Rightarrow> Inr g)"

text \<open>\<open>node.text.strip()\<close>: \<open>.strip\<close> of \<open>None\<close> raises.\<close>

definition text_strip :: "elem \<Rightarrow> exn + ustr" where
  "text_strip node =
     (case el_text node of
        None \<Rightarrow> Inl AttributeError
      | Some t \<Rightarrow> Inr (strip t))"

text \<open>
  \<open>Worker.parse_title_series\<close>. The \<open>og:title\<close> query returns strings, which have no
  \<open>.text\<close>: when only that query finds a title, \<open>title_node[0].text\<close> raises.
\<close>

definition parse_title_series ::
  "externals \<Rightarrow> root \<Rightarrow> exn + (ustr option \<times> ustr option \<times> pyfloat option)" where
  "parse_title_series ext rt =
     (case xp_h1_a rt of
        Inl e \<Rightarrow> Inl e
      | Inr title_node \<Rightarrow>
          (case (if title_node = []
                 then (case xp_og_title rt of
                         Inl e \<Rightarrow> Inl e
                       | Inr [] \<Rightarrow> Inr None
                       | Inr (_ # _) \<Rightarrow> Inl AttributeError)
                 else (case text_strip (hd title_node) of
                         Inl e \<Rightarrow> Inl e
                       | Inr t \<Rightarrow> Inr (Some t))) of
             Inl e \<Rightarrow> Inl e
           | Inr None \<Rightarrow> Inr (None, None, None)
           | Inr (Some title_text) \<Rightarrow>
               (case xp_series_a rt of
                  Inl e \<Rightarrow> Inl e
                | Inr [] \<Rightarrow> Inr (Some title_text, None, None)
                | Inr (n # _) \<Rightarrow>
                    (case text_strip n of
                       Inl e \<Rightarrow> Inl e
                     | Inr t \<Rightarrow>
                         (let series_grp = rsplit1 45 t;
                              series_name = hd series_grp
                          in if length series_grp = 2
                             then (case float_of ext (series_grp ! 1) of
                                     Inl e \<Rightarrow> Inl e
                                   | Inr f \<Rightarrow> Inr (Some title_text, Some series_name, Some f))
                             else Inr (Some title_text, Some series_name, None))))))"

text \<open>\<open>Worker.parse_authors\<close>: \<open>None\<close> when the page has no brief line.\<close>

definition parse_authors :: "root \<Rightarrow> exn + ustr list option" where
  "parse_authors rt =
     (case xp_title_p rt of
        Inl e \<Rightarrow> Inl e
      | Inr [] \<Rightarrow> Inr None
      | Inr (n # _) \<Rightarrow>
          (let bgrp = split_on 124 (el_text_content n)
           in Inr (Some (map strip (split_on 44 (hd bgrp))))))"

text \<open>\<open>Worker.parse_isbn\<close>.\<close>

definition parse_isbn :: "root \<Rightarrow> exn + ustr option" where
  "parse_isbn rt =
     (case xp_isbn10_p rt of
        Inl e \<Rightarrow> Inl e
      | Inr [] \<Rightarrow> Inr None
      | Inr (n # _) \<Rightarrow>
          (case text_strip n of
             Inl e \<Rightarrow> Inl e
           | Inr t \<Rightarrow> Inr (Some t)))"

text \<open>\<open>Worker.parse_publisher\<close>: \<open>bgrp[-2]\<close> when there are more than three parts,
  \<open>bgrp[-1]\<close> otherwise.\<close>

definition parse_publisher :: "root \<Rightarrow> exn + ustr option" where
  "parse_publisher rt =
     (case xp_title_p rt of
        Inl e \<Rightarrow> Inl e
      | Inr [] \<Rightarrow> Inr None
      | Inr (n # _) \<Rightarrow>
          (let bgrp = split_on 124 (el_text_content n)
           in if length bgrp > 3 then Inr (Some (strip (bgrp ! (length bgrp - 2))))
              else Inr (Some (strip (last bgrp)))))"

text \<open>
  \<open>re.match(u'^(\d+)Y (\d+)M (\d+)D$', date_text)\<close>, where Y, M and D stand for the
  Hangul syllables U+B144, U+C6D4 and U+C77C of the source. \<open>\d\<close> is an ASCII digit
  (no \<open>re.UNICODE\<close>), a run of digits is followed by a character that is no digit, so
  the greedy match is the whole run; \<open>$\<close> also matches before a final newline.
\<close>

definition re_match_date :: "ustr \<Rightarrow> (ustr \<times> ustr \<times> ustr) option" where
  "re_match_date s =
     (let y = takeWhile isdigit s; r1 = dropWhile isdigit s;
          m = takeWhile isdigit (drop 2 r1); r2 = dropWhile isdigit (drop 2 r1);
          d = takeWhile isdigit (drop 2 r2); r3 = dropWhile isdigit (drop 2 r2)
      in if y \<noteq> [] \<and> take 2 r1 = [45380, 32] \<and> m \<noteq> [] \<and> take 2 r2 = [50900, 32]
            \<and> d \<noteq> [] \<and> (r3 = [51068] \<or> r3 = [51068, 10])
         then Some (y, m, d) else None)"

text \<open>\<open>int()\<close> of a run of ASCII digits.\<close>

definition int_of_digits :: "ustr \<Rightarrow> nat" where
  "int_of_digits ds = foldl (\<lambda>n c. 10 * n + (c - 48)) 0 ds"

definition days_in_month :: "nat \<Rightarrow> nat \<Rightarrow> nat" where
  "days_in_month year month =
     (if month = 2
      then (if year mod 4 = 0 \<and> (year mod 100 \<noteq> 0 \<or> year mod 400 = 0) then 29 else 28)
      else if month = 4 \<or> month = 6 \<or> month = 9 \<or> month = 11 then 30 else 31)"

text \<open>
  \<open>Worker._convert_date_text\<close>: \<open>.group\<close> of \<open>None\<close> raises when the text does not match,
  \<open>datetime.datetime\<close> raises on a date that does not exist.
\<close>

definition convert_date_text :: "ustr \<Rightarrow> exn + (nat \<times> nat \<times> nat)" where
  "convert_date_text date_text =
     (case re_match_date date_text of
        None \<Rightarrow> Inl AttributeError
      | Some (year_s, month_s, day_s) \<Rightarrow>
          (let year = int_of_digits year_s;
               month = int_of_digits month_s;
               day = int_of_digits day_s
           in if 1 \<le> year \<and> year \<le> 9999 \<and> 1 \<le> month \<and> month \<le> 12
                 \<and> 1 \<le> day \<and> day \<le> days_in_month year month
              then Inr (year, month, day) else Inl ValueError))"

text \<open>\<open>Worker.parse_published_date\<close>.\<close>

definition parse_published_date :: "root \<Rightarrow> exn + (nat \<times> nat \<times> nat) option" where
  "parse_published_date rt =
     (case xp_pdDate_p rt of
        Inl e \<Rightarrow> Inl e
      | Inr [] \<Rightarrow> Inr None
      | Inr (n # _) \<Rightarrow>
          (case text_strip n of
             Inl e \<Rightarrow> Inl e
           | Inr t \<Rightarrow>
               (case convert_date_text t of
                  Inl e \<Rightarrow> Inl e
                | Inr d \<Rightarrow> Inr (Some d))))"

text \<open>\<open>Worker.parse_comments\<close>: \<open>tostring\<close> returns a byte string.\<close>

definition parse_comments :: "root \<Rightarrow> exn + ustr option" where
  "parse_comments rt =
     (case xp_description_p rt of
        Inl e \<Rightarrow> Inl e
      | Inr description_node \<Rightarrow>
          (let comments = (if description_node \<noteq> [] then strip_bytes (el_html (hd description_node)) else [])
           in if comments \<noteq> [] then Inr (Some comments) else Inr None))"

text \<open>
  \<open>Worker.parse_cover\<close>, in two parts: what it makes of the \<open>og:image\<close> content, and the
  method, which also stores the URL in the cache and raises the worker's relevance.
\<close>

definition cover_page_url :: "ustr \<Rightarrow> ustr" where
  "cover_page_url content =
     (let page_url = strip content
      in if endswith page_url (U ''/M'') then replace (U ''/M'') (U ''/L'') page_url else page_url)"

definition parse_cover :: "root \<Rightarrow> worker \<times> shared \<Rightarrow> (exn + ustr option) \<times> worker \<times> shared" where
  "parse_cover rt ws =
     (case ws of (w, sh) \<Rightarrow>
        (case xp_og_image rt of
           Inl e \<Rightarrow> (Inl e, w, sh)
         | Inr [] \<Rightarrow> (Inr None, w, sh)
         | Inr (content # _) \<Rightarrow>
             (let page_url = cover_page_url content;
                  sh' = (if truthy (w_yes24_id w)
                         then cache_identifier_to_cover_url (the (w_yes24_id w)) page_url sh
                         else sh)
              in (Inr (Some page_url), w\<lparr>w_relevance := w_relevance w + 5\<rparr>, sh'))))"

text \<open>
  The five guarded blocks of \<open>Worker.parse_details\<close>, each on the record being built,
  the worker and the shared state.
\<close>

fun try_isbn :: "root \<Rightarrow> metadata \<times> worker \<times> shared \<Rightarrow> metadata \<times> worker \<times> shared" where
  "try_isbn rt (mi, w, sh) =
     (case parse_isbn rt of
        Inl e \<Rightarrow> (mi, w, log_to Exception ''Error parsing ISBN for url: %r'' [PStr (w_url w)] sh)
      | Inr isbn \<Rightarrow>
          (if truthy isbn then (mi\<lparr>mi_isbn := isbn\<rparr>, w\<lparr>w_isbn := isbn\<rparr>, sh) else (mi, w, sh)))"

fun try_comments :: "root \<Rightarrow> metadata \<times> worker \<times> shared \<Rightarrow> metadata \<times> worker \<times> shared" where
  "try_comments rt (mi, w, sh) =
     (case parse_comments rt of
        Inl e \<Rightarrow> (mi, w, log_to Exception ''Error parsing comments for url: %r'' [PStr (w_url w)] sh)
      | Inr comments \<Rightarrow> (mi\<lparr>mi_comments := comments\<rparr>, w, sh))"

fun try_cover :: "root \<Rightarrow> metadata \<times> worker \<times> shared \<Rightarrow> metadata \<times> worker \<times> shared" where
  "try_cover rt (mi, w, sh) =
     (case parse_cover rt (w, sh) of
        (r, w1, sh1) \<Rightarrow>
          (let (w2, sh2) =
                 (case r of
                    Inl e \<Rightarrow> (w1, log_to Exception ''Error parsing cover for url: %r'' [PStr (w_url w1)] sh1)
                  | Inr cover \<Rightarrow> (w1\<lparr>w_cover_url := cover\<rparr>, sh1))
           in (mi\<lparr>mi_has_cover := truthy (w_cover_url w2), mi_cover_url := w_cover_url w2\<rparr>, w2, sh2)))"

fun try_publisher :: "root \<Rightarrow> metadata \<times> worker \<times> shared \<Rightarrow> metadata \<times> worker \<times> shared" where
  "try_publisher rt (mi, w, sh) =
     (case parse_publisher rt of
        Inl e \<Rightarrow> (mi, w, log_to Exception ''Error parsing publisher for url: %r'' [PStr (w_url w)] sh)
      | Inr publisher \<Rightarrow> (mi\<lparr>mi_publisher := publisher\<rparr>, w, sh))"

fun try_pubdate :: "root \<Rightarrow> metadata \<times> worker \<times> shared \<Rightarrow> metadata \<times> worker \<times> shared" where
  "try_pubdate rt (mi, w, sh) =
     (case parse_published_date rt of
        Inl e \<Rightarrow> (mi, w, log_to Exception ''Error parsing published date for url: %r'' [PStr (w_url w)] sh)
      | Inr pubdate \<Rightarrow> (mi\<lparr>mi_pubdate := pubdate\<rparr>, w, sh))"

text \<open>\<open>Metadata(title, authors)\<close>: a record with nothing else set.\<close>

definition Metadata :: "ustr \<Rightarrow> ustr list \<Rightarrow> metadata" where
  "Metadata title authors =
     \<lparr>mi_title = title, mi_authors = authors, mi_series = None, mi_series_index = None,
      mi_yes24 = None, mi_isbn = None, mi_comments = None, mi_has_cover = False,
      mi_cover_url = None, mi_publisher = None, mi_pubdate = None, mi_language = None,
      mi_source_relevance = None\<rparr>"

definition pv :: "ustr option \<Rightarrow> pyval" where
  "pv v = (case v of None \<Rightarrow> PNone | Some s \<Rightarrow> PStr s)"

definition pl :: "ustr list option \<Rightarrow> pyval" where
  "pl v = (case v of None \<Rightarrow> PNone | Some l \<Rightarrow> PList l)"

text \<open>
  The first part of \<open>Worker.parse_details\<close>: the YES24 id, the title with its series and
  the authors, each with its own handler.
\<close>

definition parse_required ::
  "externals \<Rightarrow> root \<Rightarrow> worker \<times> shared \<Rightarrow>
     ustr option \<times> ustr option \<times> ustr option \<times> pyfloat option \<times> ustr list option \<times> shared" where
  "parse_required ext rt ws =
     (case ws of (w, sh) \<Rightarrow>
        (let (yes24_id, sh1) =
               (case parse_yes24_id (w_url w) of
                  Inl e \<Rightarrow> (None, log_to Exception ''Error parsing YES24 id for url: %r'' [PStr (w_url w)] sh)
                | Inr i \<Rightarrow> (Some i, sh));
             (title, series, series_index, sh2) =
               (case parse_title_series ext rt of
                  Inl e \<Rightarrow>
                    (None, None, None,
                     log_to Exception ''Error parsing title and series for url: %r'' [PStr (w_url w)] sh1)
                | Inr (t, s, i) \<Rightarrow> (t, s, i, sh1));
             (authors, sh3) =
               (case parse_authors rt of
                  Inl e \<Rightarrow> (Some [], log_to Exception ''Error parsing authors for url: %r'' [PStr (w_url w)] sh2)
                | Inr a \<Rightarrow> (a, sh2))
         in (yes24_id, title, series, series_index, authors, sh3)))"

text \<open>\<open>Worker.parse_details\<close>.\<close>

definition parse_details :: "externals \<Rightarrow> root \<Rightarrow> worker \<times> shared \<Rightarrow> worker \<times> shared" where
  "parse_details ext rt ws =
     (case parse_required ext rt ws of
        (yes24_id, title, series, series_index, authors, sh) \<Rightarrow>
          (if \<not> truthy title \<or> \<not> truthy authors \<or> \<not> truthy yes24_id
           then (fst ws,
                 log_to Error ''YES24: %r Title: %r Authors: %r'' [pv yes24_id, pv title, pl authors]
                   (log_to Error ''Could not find title/authors/YES24 id for %r'' [PStr (w_url (fst ws))] sh))
           else
             (let mi = Metadata (the title) (the authors);
                  mi = (if truthy series
                        then mi\<lparr>mi_series := series, mi_series_index := series_index\<rparr> else mi);
                  mi = mi\<lparr>mi_yes24 := yes24_id\<rparr>;
                  w = (fst ws)\<lparr>w_yes24_id := yes24_id\<rparr>;
                  (mi, w, sh) = try_isbn rt (mi, w, sh);
                  (mi, w, sh) = try_comments rt (mi, w, sh);
                  (mi, w, sh) = try_cover rt (mi, w, sh);
                  (mi, w, sh) = try_publisher rt (mi, w, sh);
                  (mi, w, sh) = try_pubdate rt (mi, w, sh);
                  mi = mi\<lparr>mi_language := Some (U ''ko''), mi_source_relevance := Some (w_relevance w)\<rparr>;
                  sh = (if truthy (w_yes24_id w)
                        then (if truthy (w_isbn w)
                              then cache_isbn_to_identifier (the (w_isbn w)) (the (w_yes24_id w)) sh
                              else sh)
                        else sh)
              in (w, sh\<lparr>result_queue := result_queue sh @ [clean_downloaded_metadata ext mi]\<rparr>))))"

text \<open>
  The network as a worker's browser sees it: what
  \<open>open_novisit(url, timeout=...).read()\<close> raises or returns, given the number of
  requests the browser made before.
\<close>

type_synonym network = "nat \<Rightarrow> ustr \<Rightarrow> exn + ustr"

text \<open>\<open>Worker.get_details\<close>.\<close>

definition get_details :: "externals \<Rightarrow> network \<Rightarrow> worker \<times> shared \<Rightarrow> worker \<times> shared" where
  "get_details ext net ws =
     (case ws of (w0, sh0) \<Rightarrow>
        (let url = w_url w0;
             sh = log_to Info ''YES24 url: %r'' [PStr url] sh0;
             response = net (length (w_requests w0)) url;
             w = w0\<lparr>w_requests := w_requests w0 @ [url]\<rparr>
         in case response of
              Inl e \<Rightarrow>
                (w, (case e of
                       HTTPError code \<Rightarrow>
                         (if code = 404 then log_to Error ''URL malformed: %r'' [PStr url] sh
                          else log_to Exception ''Failed to make details query: %r'' [PStr url] sh)
                     | URLError_timeout \<Rightarrow> log_to Error ''YES24 timed out. Try again later.'' [] sh
                     | _ \<Rightarrow> log_to Exception ''Failed to make details query: %r'' [PStr url] sh))
            | Inr body \<Rightarrow>
                (let raw = decode_euckr ext (strip_bytes body)
                 in if contains (U ''HTTP 404.'') raw
                    then (w, log_to Error ''URL malformed: %r'' [PStr url] sh)
                    else (case fromstring ext raw of
                            Inl e \<Rightarrow> (w, log_to Exception ''Failed to parse YES24 details page: %r'' [PStr url] sh)
                          | Inr rt \<Rightarrow> parse_details ext rt (w, sh)))))"

text \<open>
  \<open>Worker.run\<close> calls \<open>get_details\<close> and logs whatever exception leaves it; in this
  model every exception is handled inside \<open>get_details\<close>.
\<close>

definition run :: "externals \<Rightarrow> network \<Rightarrow> worker \<times> shared \<Rightarrow> worker \<times> shared" where
  "run ext net ws = get_details ext net ws"

section \<open>The plugin: identify\<close>

text \<open>
  How \<open>YES24.identify\<close> ends before it starts a worker: it returns \<open>None\<close>, a message or
  the text of an exception, or an exception leaves it.
\<close>

datatype early = Return_None | Return_msg string | Return_error exn | Raised exn

text \<open>
  \<open>identify\<close> up to the list of matches. \<open>br\<close> is the plugin's browser on the query:
  \<open>open_novisit\<close> raises, or gives a response whose \<open>read\<close> raises or returns the body.
  The result holds the lines logged, the URLs opened, and the matches or the early end.
\<close>

definition identify_matches ::
  "externals \<Rightarrow> (ustr \<Rightarrow> exn + (exn + ustr)) \<Rightarrow> ustr option \<Rightarrow> ustr list option \<Rightarrow> (ustr \<rightharpoonup> ustr)
     \<Rightarrow> log_entry list \<times> ustr list \<times> (early + ustr list)" where
  "identify_matches ext br title authors identifiers =
     (let yes24_id = identifiers (U ''yes24'')
      in if truthy yes24_id then ([], [], Inr [BROWSE_URL @ U ''/'' @ the yes24_id])
         else
           (case create_query ext title authors identifiers of
              Inl e \<Rightarrow> ([], [], Inl (Raised e))
            | Inr None \<Rightarrow>
                ([(Error, ''Insufficient metadata to construct query'', [])], [], Inl Return_None)
            | Inr (Some query) \<Rightarrow>
                (let lg = [(Info, ''Querying: %s'', [PStr query])]
                 in case br query of
                      Inl e \<Rightarrow>
                        (lg @ [(Exception, ''Failed to make identify query'', [])], [query],
                         Inl (Return_error e))
                    | Inr (Inl e) \<Rightarrow>
                        (lg @ [(Exception, ''Failed to parse YES24 page for query'', [])], [query],
                         Inl (Return_msg ''Failed to parse YES24 page for query''))
                    | Inr (Inr body) \<Rightarrow>
                        (let raw = decode_euckr ext (strip_bytes body)
                         in if raw = []
                            then (lg @ [(Error, ''Failed to get raw result for query'', [])], [query],
                                  Inl Return_None)
                            else
                              (case fromstring ext raw of
                                 Inl e \<Rightarrow>
                                   (lg @ [(Exception, ''Failed to parse YES24 page for query'', [])],
                                    [query], Inl (Return_msg ''Failed to parse YES24 page for query''))
                               | Inr rt \<Rightarrow>
                                   (case parse_search_results rt [] of
                                      (matches, None) \<Rightarrow> (lg, [query], Inr matches)
                                    | (matches, Some e) \<Rightarrow>
                                        (lg @ [(Exception, ''Failed to make identify query'', [])],
                                         [query], Inl (Return_error e))))))))"

text \<open>
  \<open>identify\<close> from the matches to the workers: nothing is created when the abort signal
  is set, else \<open>[Worker(url, ..., i, self) for i, url in enumerate(matches)]\<close>.
\<close>

definition identify_workers :: "bool \<Rightarrow> ustr list \<Rightarrow> early + worker list" where
  "identify_workers abort_is_set matches =
     (if abort_is_set then Inl Return_None
      else Inr (map (\<lambda>(i, url). Worker url (int i)) (enumerate 0 matches)))"

text \<open>
  The waiting loop of \<open>identify\<close>. What the loop sees of the threads and of the abort
  signal is given by its surroundings: \<open>abort_at n\<close> is what \<open>abort.is_set()\<close> returns
  and \<open>alive_at n i\<close> what \<open>is_alive()\<close> of the \<open>i\<close>-th worker returns at step \<open>n\<close>; a
  \<open>join(0.2)\<close> and every reading take one step.
\<close>

record env =
  abort_at :: "nat \<Rightarrow> bool"
  alive_at :: "nat \<Rightarrow> nat \<Rightarrow> bool"

text \<open>
  The \<open>for\<close> loop over the workers, from step \<open>n\<close> with the flag \<open>a_worker_is_alive\<close>:
  the step after it and the flag.
\<close>

fun join_all :: "env \<Rightarrow> nat list \<Rightarrow> nat \<Rightarrow> bool \<Rightarrow> nat \<times> bool" where
  "join_all ev [] n a = (n, a)"
| "join_all ev (w # ws) n a =
     (if abort_at ev (n + 1) then (n + 2, a)
      else if alive_at ev (n + 2) w then join_all ev ws (n + 3) True
      else join_all ev ws (n + 3) a)"

text \<open>
  The \<open>while\<close> loop, which may run for ever: with \<open>fuel\<close> rounds allowed it returns the
  step at which \<open>identify\<close> returns, or \<open>None\<close> when the rounds are used up.
\<close>

fun wait_loop :: "env \<Rightarrow> nat list \<Rightarrow> nat \<Rightarrow> nat \<Rightarrow> nat option" where
  "wait_loop ev ws 0 n = None"
| "wait_loop ev ws (Suc fuel) n =
     (if abort_at ev n then Some (n + 1)
      else (case join_all ev ws (n + 1) False of
              (n', a_worker_is_alive) \<Rightarrow>
                (if \<not> a_worker_is_alive then Some n' else wait_loop ev ws fuel n')))"

definition identify_wait :: "env \<Rightarrow> worker list \<Rightarrow> nat \<Rightarrow> nat \<Rightarrow> nat option" where
  "identify_wait ev workers fuel n = wait_loop ev [0..<length workers] fuel n"

text \<open>
  The workers of one lookup, one after the other on the shared state. The caches are
  only touched through the store functions above, one dictionary assignment each.
\<close>

fun run_workers :: "externals \<Rightarrow> network \<Rightarrow> worker list \<Rightarrow> shared \<Rightarrow> shared" where
  "run_workers ext net [] sh = sh"
| "run_workers ext net (w # ws) sh = run_workers ext net ws (snd (run ext net (w, sh)))"

text \<open>
  The test of \<open>parse_details\<close> before it builds a record (\<open>if not title or not authors
  or not yes24_id\<close>), as a function of the page and the URL.
\<close>

definition required_found :: "externals \<Rightarrow> root \<Rightarrow> ustr \<Rightarrow> bool" where
  "required_found ext rt url =
     (truthy (case parse_title_series ext rt of Inl e \<Rightarrow> None | Inr (t, s, i) \<Rightarrow> t)
      \<and> truthy (case parse_authors rt of Inl e \<Rightarrow> Some [] | Inr a \<Rightarrow> a)
      \<and> truthy (case parse_yes24_id url of Inl e \<Rightarrow> None | Inr i \<Rightarrow> Some i))"

text \<open>
  The reading of \<open>replace\<close> that rewrites the first occurrence only, for comparison
  with the method above.
\<close>

fun replace_first :: "'a list \<Rightarrow> 'a list \<Rightarrow> 'a list \<Rightarrow> 'a list" where
  "replace_first old new [] = []"
| "replace_first old new (c # cs) =
     (if startswith (c # cs) old then new @ drop (length old) (c # cs)
      else c # replace_first old new cs)"

text \<open>
  What \<open>replace\<close> does with \<open>'/M'\<close> and \<open>'/L'\<close>, told character by character: \<open>p\<close> is the
  character before the rest \<open>s\<close>, and an \<open>M\<close> right after a slash becomes an \<open>L\<close>.
\<close>

fun relabel :: "nat \<Rightarrow> ustr \<Rightarrow> ustr" where
  "relabel p [] = []"
| "relabel p (c # cs) = (if p = 47 \<and> c = 77 then 76 else c) # relabel c cs"

section \<open>A concrete setting for evaluation\<close>

text \<open>
  Stand-ins for the libraries, for evaluating the definitions on concrete input:
  an ISBN check that keeps digits and \<open>X\<close> and tests the length only; a codec that
  encodes ASCII as itself and refuses every other character (as \<open>euc-kr\<close> does for a
  character outside its table, such as U+00E9); \<open>urllib.quote\<close> with its default safe
  characters; a parser that knows the pages of a table.
\<close>

definition isbn_shape :: "ustr option \<Rightarrow> ustr option" where
  "isbn_shape v =
     (case v of
        None \<Rightarrow> None
      | Some s \<Rightarrow>
          (let d = filter (\<lambda>c. isdigit c \<or> c = 88) s
           in if length d = 10 \<or> length d = 13 then Some d else None))"

definition ascii_codec :: "ustr \<Rightarrow> exn + ustr" where
  "ascii_codec t = (if list_all (\<lambda>c. c < 128) t then Inr t else Inl UnicodeEncodeError)"

definition hexdigit :: "nat \<Rightarrow> nat" where
  "hexdigit n = (if n < 10 then 48 + n else 55 + n)"

definition always_safe :: "nat \<Rightarrow> bool" where
  "always_safe c =
     ((65 \<le> c \<and> c \<le> 90) \<or> (97 \<le> c \<and> c \<le> 122) \<or> isdigit c \<or> c = 95 \<or> c = 46 \<or> c = 45 \<or> c = 47)"

definition urllib_quote :: "ustr \<Rightarrow> ustr" where
  "urllib_quote s =
     concat (map (\<lambda>c. if always_safe c then [c] else [37, hexdigit (c div 16), hexdigit (c mod 16)]) s)"

definition table_parser :: "(ustr \<times> root) list \<Rightarrow> ustr \<Rightarrow> exn + root" where
  "table_parser pages raw =
     (case map_of pages raw of
        None \<Rightarrow> Inl (OtherError (U ''ParserError''))
      | Some rt \<Rightarrow> Inr rt)"

definition ext_with :: "(ustr \<times> root) list \<Rightarrow> externals" where
  "ext_with pages =
     \<lparr>check_isbn = isbn_shape, encode_euckr = ascii_codec, decode_euckr = (\<lambda>b. b),
      quote = urllib_quote, fromstring = table_parser pages,
      float_of = (\<lambda>s. Inl ValueError), clean_downloaded_metadata = (\<lambda>mi. mi)\<rparr>"

definition node :: "ustr \<Rightarrow> elem" where
  "node t = \<lparr>el_text = Some t, el_text_content = t, el_html = U ''<p>'' @ t @ U ''</p>''\<rparr>"

text \<open>A page on which no query finds anything, and a detail page with every field.\<close>

definition blank_page :: root where
  "blank_page =
     \<lparr>xp_goods_infogrp = Inr [], xp_h1_a = Inr [], xp_og_title = Inr [], xp_series_a = Inr [],
      xp_title_p = Inr [], xp_isbn10_p = Inr [], xp_pdDate_p = Inr [], xp_description_p = Inr [],
      xp_og_image = Inr []\<rparr>"

definition book_page :: root where
  "book_page =
     blank_page
       \<lparr>xp_h1_a := Inr [node (U ''Momo'')],
        xp_title_p := Inr [node (U ''Michael Ende | Biryongso | 1999'')],
        xp_isbn10_p := Inr [node (U ''8949190028'')],
        xp_pdDate_p := Inr [node (U ''1999'' @ [45380, 32, 50, 50900, 32, 57, 51068])],
        xp_description_p := Inr [node (U ''A story'')],
        xp_og_image := Inr [U ''http://image.yes24.com/goods/72289/M'']\<rparr>"

definition empty_shared :: shared where
  "empty_shared =
     \<lparr>isbn_to_identifier_cache = Map.empty, identifier_to_cover_url_cache = Map.empty,
      result_queue = [], log_lines = []\<rparr>"

section \<open>Properties of the query builder\<close>

lemma split_on_nonempty: "split_on c s \<noteq> []"
  by (induction s) auto

lemma quote_tokens_length: "quote_tokens ext ts = Inr qs \<Longrightarrow> length qs = length ts"
  by (induction ts arbitrary: qs) (auto split: sum.splits)

lemma quote_tokens_encodable:
  "(\<forall>t\<in>set ts. \<exists>b. encode_euckr ext t = Inr b) \<Longrightarrow> \<exists>qs. quote_tokens ext ts = Inr qs"
  by (induction ts) (auto split: sum.splits)

text \<open>
  Claim C9. In \<open>_create_query\<close> a valid ISBN takes precedence over everything else: when
  the host's check accepts the \<open>isbn\<close> identifier, the query is the search URL with the
  checked ISBN as its only term, whatever the title and the authors are. Without a valid
  ISBN, the authors after the first do not matter, and the query is the search URL with
  the quoted tokens of the title followed by those of the first author, joined by \<open>+\<close>.
\<close>

theorem create_query_isbn_first:
  "(check_isbn ext (identifiers (U ''isbn'')) = Some isbn \<longrightarrow>
      create_query ext title authors identifiers = Inr (Some (SEARCH_URL @ U ''&query='' @ isbn)))
   \<and> (check_isbn ext (identifiers (U ''isbn'')) = None \<longrightarrow>
      create_query ext title (Some (a # rest)) identifiers = create_query ext title (Some [a]) identifiers)
   \<and> (check_isbn ext (identifiers (U ''isbn'')) = None
        \<and> (if truthy title then quote_tokens ext (split_on 32 (the title)) else Inr []) = Inr tt
        \<and> quote_tokens ext (split_on 32 a) = Inr at \<longrightarrow>
      create_query ext title (Some (a # rest)) identifiers
        = Inr (Some (SEARCH_URL @ U ''&query='' @ join (U ''+'') (tt @ at))))"
proof (intro conjI impI)
  assume "check_isbn ext (identifiers (U ''isbn'')) = Some isbn"
  then show "create_query ext title authors identifiers = Inr (Some (SEARCH_URL @ U ''&query='' @ isbn))"
    by (simp add: create_query_def)
next
  assume "check_isbn ext (identifiers (U ''isbn'')) = None"
  then show "create_query ext title (Some (a # rest)) identifiers = create_query ext title (Some [a]) identifiers"
    by (simp add: create_query_def cong: sum.case_cong)
next
  assume h: "check_isbn ext (identifiers (U ''isbn'')) = None
        \<and> (if truthy title then quote_tokens ext (split_on 32 (the title)) else Inr []) = Inr tt
        \<and> quote_tokens ext (split_on 32 a) = Inr at"
  then have "length at = length (split_on 32 a)" by (auto dest: quote_tokens_length)
  then have "at \<noteq> []" using split_on_nonempty[of 32 a] by auto
  with h show "create_query ext title (Some (a # rest)) identifiers
        = Inr (Some (SEARCH_URL @ U ''&query='' @ join (U ''+'') (tt @ at)))"
    by (simp add: create_query_def truthy_def)
qed

theorem create_query_isbn_first_witness:
  "create_query (ext_with []) (Some (U ''Momo'')) (Some [U ''Michael Ende''])
       [U ''isbn'' \<mapsto> U ''978-89-8392-068-3'']
     = Inr (Some (SEARCH_URL @ U ''&query=9788983920683''))
   \<and> create_query (ext_with []) (Some (U ''Momo'')) (Some [U ''Michael Ende'', U ''Kim'']) Map.empty
     = create_query (ext_with []) (Some (U ''Momo'')) (Some [U ''Michael Ende'']) Map.empty
   \<and> create_query (ext_with []) (Some (U ''Momo'')) (Some [U ''Michael Ende'', U ''Kim'']) Map.empty
     = Inr (Some (SEARCH_URL @ U ''&query=Momo+Michael+Ende''))"
  using create_query_isbn_first [where ext = "ext_with []" and title = "Some (U ''Momo'')"
      and authors = "Some [U ''Michael Ende'']"
      and identifiers = "[U ''isbn'' \<mapsto> U ''978-89-8392-068-3'']" and isbn = "U ''9788983920683''"]
    create_query_isbn_first [where ext = "ext_with []" and title = "Some (U ''Momo'')"
      and identifiers = "Map.empty" and a = "U ''Michael Ende''" and rest = "[U ''Kim'']"
      and tt = "[U ''Momo'']" and at = "[U ''Michael'', U ''Ende'']"]
  by (auto simp add: ext_with_def isbn_shape_def isdigit_def ascii_codec_def urllib_quote_def
      always_safe_def truthy_def)

lemma create_query_None_iff:
  "create_query ext title authors identifiers = Inr None
     \<longleftrightarrow> check_isbn ext (identifiers (U ''isbn'')) = None \<and> \<not> truthy title \<and> \<not> truthy authors"
proof (cases "check_isbn ext (identifiers (U ''isbn''))")
  case (Some i)
  then show ?thesis by (simp add: create_query_def)
next
  case None
  have ne: "\<And>s qs. quote_tokens ext (split_on 32 s) = Inr qs \<Longrightarrow> qs \<noteq> []"
    using split_on_nonempty quote_tokens_length by (metis length_0_conv)
  show ?thesis
    using None by (auto simp: create_query_def truthy_def Let_def split: sum.splits dest: ne)
qed

text \<open>
  Claim C4, amended. \<open>_create_query\<close> returns a search URL when a valid ISBN is supplied,
  and, without one, when the title or the list of authors is not empty and the codec can
  encode every token of the title and of the first author. It returns \<open>None\<close> exactly
  when there is no valid ISBN and neither a title nor an author; \<open>identify\<close>, given no
  YES24 id, then logs \<open>Insufficient metadata to construct query\<close> and opens no URL.
\<close>

theorem create_query_when_url:
  "(check_isbn ext (identifiers (U ''isbn'')) \<noteq> None \<longrightarrow>
      (\<exists>u. create_query ext title authors identifiers = Inr (Some u)))
   \<and> (check_isbn ext (identifiers (U ''isbn'')) = None \<and> (truthy title \<or> truthy authors)
        \<and> (\<forall>t \<in> set ((if truthy title then split_on 32 (the title) else [])
                         @ (if truthy authors then split_on 32 (hd (the authors)) else [])).
              \<exists>b. encode_euckr ext t = Inr b) \<longrightarrow>
      (\<exists>u. create_query ext title authors identifiers = Inr (Some u)))
   \<and> (create_query ext title authors identifiers = Inr None
        \<longleftrightarrow> check_isbn ext (identifiers (U ''isbn'')) = None \<and> \<not> truthy title \<and> \<not> truthy authors)
   \<and> (\<not> truthy (identifiers (U ''yes24'')) \<and> create_query ext title authors identifiers = Inr None \<longrightarrow>
      identify_matches ext br title authors identifiers
        = ([(Error, ''Insufficient metadata to construct query'', [])], [], Inl Return_None))"
proof (intro conjI impI)
  assume "check_isbn ext (identifiers (U ''isbn'')) \<noteq> None"
  then show "\<exists>u. create_query ext title authors identifiers = Inr (Some u)"
    by (auto simp: create_query_def)
next
  assume h: "check_isbn ext (identifiers (U ''isbn'')) = None \<and> (truthy title \<or> truthy authors)
        \<and> (\<forall>t \<in> set ((if truthy title then split_on 32 (the title) else [])
                         @ (if truthy authors then split_on 32 (hd (the authors)) else [])).
              \<exists>b. encode_euckr ext t = Inr b)"
  have "\<exists>tt. (if truthy title then quote_tokens ext (split_on 32 (the title)) else Inr []) = Inr tt"
    using h by (auto intro: quote_tokens_encodable)
  then obtain tt where tt: "(if truthy title then quote_tokens ext (split_on 32 (the title)) else Inr []) = Inr tt"
    by blast
  have "\<exists>at. (if truthy authors then quote_tokens ext (split_on 32 (hd (the authors))) else Inr []) = Inr at"
    using h by (auto intro: quote_tokens_encodable)
  then obtain at where at: "(if truthy authors then quote_tokens ext (split_on 32 (hd (the authors))) else Inr []) = Inr at"
    by blast
  have "create_query ext title authors identifiers \<noteq> Inr None"
    using h by (simp add: create_query_None_iff)
  moreover have "\<exists>r. create_query ext title authors identifiers = Inr r"
    using h tt at by (auto simp: create_query_def truthy_def Let_def)
  ultimately show "\<exists>u. create_query ext title authors identifiers = Inr (Some u)"
    by (metis option.exhaust)
next
  show "create_query ext title authors identifiers = Inr None
        \<longleftrightarrow> check_isbn ext (identifiers (U ''isbn'')) = None \<and> \<not> truthy title \<and> \<not> truthy authors"
    by (rule create_query_None_iff)
next
  assume "\<not> truthy (identifiers (U ''yes24'')) \<and> create_query ext title authors identifiers = Inr None"
  then show "identify_matches ext br title authors identifiers
        = ([(Error, ''Insufficient metadata to construct query'', [])], [], Inl Return_None)"
    by (simp add: identify_matches_def)
qed

theorem create_query_when_url_witness:
  "(\<exists>u. create_query (ext_with []) None None [U ''isbn'' \<mapsto> U ''8949190028''] = Inr (Some u))
   \<and> (\<exists>u. create_query (ext_with []) (Some (U ''Momo'')) None Map.empty = Inr (Some u))
   \<and> create_query (ext_with []) (Some []) (Some []) Map.empty = Inr None
   \<and> identify_matches (ext_with []) (\<lambda>q. Inl (HTTPError 500)) (Some []) (Some []) Map.empty
       = ([(Error, ''Insufficient metadata to construct query'', [])], [], Inl Return_None)"
  using create_query_when_url [where ext = "ext_with []" and title = None and authors = None
      and identifiers = "[U ''isbn'' \<mapsto> U ''8949190028'']"]
    create_query_when_url [where ext = "ext_with []" and title = "Some (U ''Momo'')" and authors = None
      and identifiers = "Map.empty"]
    create_query_when_url [where ext = "ext_with []" and title = "Some []" and authors = "Some []"
      and identifiers = "Map.empty" and br = "\<lambda>q. Inl (HTTPError 500)"]
  by (simp add: ext_with_def isbn_shape_def isdigit_def ascii_codec_def truthy_def)

text \<open>
  The claim as stated, that a title which is not empty always gives a URL, fails on a
  title with a character outside the codec's table: \<open>t.encode('euc-kr')\<close> raises and
  nothing in \<open>_create_query\<close> or around its call catches the exception.
\<close>

theorem create_query_raises_counterexample:
  "truthy (Some [233::nat])
   \<and> create_query (ext_with []) (Some [233]) None Map.empty = Inl UnicodeEncodeError"
  by (simp add: create_query_def ext_with_def isbn_shape_def ascii_codec_def truthy_def)

section \<open>Properties of the result listing\<close>

lemma append_result_urls_all:
  "[] \<notin> set hrefs \<Longrightarrow>
     append_result_urls (map Inr hrefs) matches = (matches @ map (\<lambda>hs. BASE_URL @ hd hs) hrefs, None)"
proof (induction hrefs arbitrary: matches)
  case Nil
  then show ?case by simp
next
  case (Cons hs hrefs)
  then obtain h rest where "hs = h # rest" by (cases hs) auto
  with Cons show ?case by simp
qed

text \<open>
  Claim C5. \<open>_parse_search_results\<close> appends to \<open>matches\<close>, for every
  \<open>goods_infogrp\<close> element of the listing in document order, the base URL followed by
  the first \<open>href\<close> the element's \<open>goods_name\<close> query returns; a listing with no such
  element leaves \<open>matches\<close> as it was.
\<close>

theorem parse_search_results_urls:
  "(xp_goods_infogrp rt = Inr (map Inr hrefs) \<and> [] \<notin> set hrefs \<longrightarrow>
      parse_search_results rt matches = (matches @ map (\<lambda>hs. BASE_URL @ hd hs) hrefs, None))
   \<and> (xp_goods_infogrp rt = Inr [] \<longrightarrow> parse_search_results rt matches = (matches, None))"
  by (simp add: parse_search_results_def append_result_urls_all)

theorem parse_search_results_urls_witness:
  "parse_search_results
       (blank_page\<lparr>xp_goods_infogrp := Inr [Inr [U ''/24/goods/72289'', U ''/x''], Inr [U ''/24/goods/6185205'']]\<rparr>)
       [U ''http://a'']
     = ([U ''http://a'', U ''http://www.yes24.com/24/goods/72289'', U ''http://www.yes24.com/24/goods/6185205''], None)
   \<and> parse_search_results blank_page [U ''http://a''] = ([U ''http://a''], None)"
  using parse_search_results_urls [where
      rt = "blank_page\<lparr>xp_goods_infogrp := Inr [Inr [U ''/24/goods/72289'', U ''/x''], Inr [U ''/24/goods/6185205'']]\<rparr>"
      and hrefs = "[[U ''/24/goods/72289'', U ''/x''], [U ''/24/goods/6185205'']]" and matches = "[U ''http://a'']"]
    parse_search_results_urls [where rt = blank_page and hrefs = "[]" and matches = "[U ''http://a'']"]
  by (simp add: blank_page_def BASE_URL_def)

end
